theory Spec2Isabelle
  imports Complex_Main
begin

section \<open>Errors\<close>

text \<open>
  The Python exceptions that can leave the functions modelled below. The first three are
  raised by the interpreter itself (a missing dictionary key, a missing attribute of the
  session state, \<open>None + None\<close>); the others are the error kinds of the query pipeline.
\<close>

datatype error =
    KeyError
  | AttributeError
  | TypeError
  | EmbeddingError
  | DimensionMismatchError
  | RetrievalError
  | TemplateError
  | GenerationError

section \<open>SimilarityScorer\<close>

text \<open>
  A floating-point result is either a number or the undefined value NaN. Numbers are
  modelled as reals: rounding is not what the properties below are about.
\<close>

datatype fl = Num real | NaN

text \<open>The quotient of two floats; \<open>0 / 0\<close> is NaN, and so is every division by zero here.\<close>

definition fdiv :: "real \<Rightarrow> real \<Rightarrow> fl" where
  "fdiv x y = (if y = 0 then NaN else Num (x / y))"

definition dot :: "real list \<Rightarrow> real list \<Rightarrow> real" where
  "dot a b = sum_list (map (\<lambda>(x, y). x * y) (zip a b))"

definition euclidean_norm :: "real list \<Rightarrow> real" where
  "euclidean_norm a = sqrt (dot a a)"

text \<open>
  Modelled from the spec: \<open>CosineSimilarity\<close> of module \<open>rag_pipeline\<close>, which is not
  among the sources. Section 4.2: the two vectors must have equal length
  (\<open>DimensionMismatchError\<close> otherwise); the score is the dot product divided by the
  product of the Euclidean norms; if either norm is zero the score is 0.0.
\<close>

definition score :: "real list \<Rightarrow> real list \<Rightarrow> error + fl" where
  "score a b =
     (if length a \<noteq> length b then Inl DimensionMismatchError
      else if euclidean_norm a = 0 \<or> euclidean_norm b = 0 then Inr (Num 0)
      else Inr (fdiv (dot a b) (euclidean_norm a * euclidean_norm b)))"

section \<open>RetrievalService\<close>

record chunk =
  chunk_id :: string
  source_text :: string
  embedding :: "real list"

text \<open>
  A scored chunk carries the cosine score of step 2 and, once a reranker has run, the
  reranker's relevance for it.
\<close>

record scored_chunk =
  chunk :: chunk
  cosine :: fl
  relevance :: "real option"

record retrieval_config =
  top_k :: int
  similarity_threshold :: real

text \<open>Python's \<open>s >= t\<close> on floats: every comparison with NaN is false.\<close>

fun fl_ge :: "fl \<Rightarrow> real \<Rightarrow> bool" where
  "fl_ge (Num r) t = (t \<le> r)"
| "fl_ge NaN t = False"

fun fl_val :: "fl \<Rightarrow> real" where
  "fl_val (Num r) = r"
| "fl_val NaN = 0"

text \<open>The score a chunk is finally ranked by: the reranker's when there is one.\<close>

definition final_score :: "scored_chunk \<Rightarrow> real" where
  "final_score sc = (case relevance sc of Some r \<Rightarrow> r | None \<Rightarrow> fl_val (cosine sc))"

text \<open>Step 2: every candidate is scored against the query vector by the scorer.\<close>

fun rescore :: "real list \<Rightarrow> chunk list \<Rightarrow> error + scored_chunk list" where
  "rescore q [] = Inr []"
| "rescore q (c # cs) =
     (case score q (embedding c) of
        Inl e \<Rightarrow> Inl e
      | Inr s \<Rightarrow>
          (case rescore q cs of
             Inl e \<Rightarrow> Inl e
           | Inr scs \<Rightarrow> Inr (\<lparr>chunk = c, cosine = s, relevance = None\<rparr> # scs)))"

text \<open>A stable sort, highest key first: equal keys keep the order they arrived in.\<close>

definition sort_desc :: "('a \<Rightarrow> real) \<Rightarrow> 'a list \<Rightarrow> 'a list" where
  "sort_desc f xs = sort_key (\<lambda>x. - f x) xs"

text \<open>
  Step 3: the optional reranker. It is absent (\<open>None\<close>), or its call fails, or it yields a
  relevance for every chunk, by which the candidates are reordered.
\<close>

definition rerank ::
  "(error + (chunk \<Rightarrow> real)) option \<Rightarrow> scored_chunk list \<Rightarrow> error + scored_chunk list" where
  "rerank rr scs =
     (case rr of
        None \<Rightarrow> Inr scs
      | Some (Inl e) \<Rightarrow> Inl RetrievalError
      | Some (Inr rel) \<Rightarrow>
          Inr (sort_desc final_score (map (\<lambda>sc. sc\<lparr>relevance := Some (rel (chunk sc))\<rparr>) scs)))"

text \<open>
  Modelled from the spec: \<open>RetrievalService.retrieve\<close> of module \<open>rag_pipeline\<close>, which is
  not among the sources. Section 4.3, in its order: (1) the vector store's nearest-neighbour
  query, a black box that yields candidates or fails; (2) the candidates are scored by
  cosine similarity; (3) the optional reranker; (4) chunks whose cosine score is below the
  threshold are dropped; (5) the rest is ordered highest-ranked first, ties in the order
  received, and cut to \<open>top_k\<close>. A store or reranker failure is a \<open>RetrievalError\<close>.
\<close>

definition retrieve ::
  "(real list \<Rightarrow> error + chunk list) \<Rightarrow> (error + (chunk \<Rightarrow> real)) option \<Rightarrow>
     real list \<Rightarrow> retrieval_config \<Rightarrow> error + scored_chunk list" where
  "retrieve nearest rr q cfg =
     (case nearest q of
        Inl e \<Rightarrow> Inl RetrievalError
      | Inr cands \<Rightarrow>
          (case rescore q cands of
             Inl e \<Rightarrow> Inl e
           | Inr scored \<Rightarrow>
               (case rerank rr scored of
                  Inl e \<Rightarrow> Inl e
                | Inr ranked \<Rightarrow>
                    Inr (take (nat (top_k cfg))
                          (sort_desc final_score
                            (filter (\<lambda>sc. fl_ge (cosine sc) (similarity_threshold cfg)) ranked))))))"

section \<open>The application: configuration and services\<close>

text \<open>
  \<open>load_environment_config\<close>: the API key and the demo credentials come from
  \<open>os.getenv\<close>, which yields \<open>None\<close> for an unset variable; the other values come from
  \<open>helpers.load_config\<close>, which is not among the sources and is taken as a parameter.
\<close>

record config =
  api_key :: "string option"
  bucket :: string
  vector_bucket :: string
  vector_region :: string
  vector_index :: string
  vector_dim :: string
  demo_username :: "string option"
  demo_password :: "string option"

definition load_environment_config ::
  "(string \<Rightarrow> string option) \<Rightarrow> (string \<Rightarrow> string) \<Rightarrow> config" where
  "load_environment_config getenv load_config =
     \<lparr>api_key = getenv ''OPENAI_API_KEY'',
      bucket = load_config ''AWS_S3_BUCKET'',
      vector_bucket = load_config ''VECTOR_S3_BUCKET'',
      vector_region = load_config ''VECTOR_REGION'',
      vector_index = load_config ''VECTOR_INDEX'',
      vector_dim = load_config ''VECTOR_DIMENSION'',
      demo_username = getenv ''DEMO_USERNAME'',
      demo_password = getenv ''DEMO_PASSWORD''\<rparr>"

text \<open>
  The service objects. Their classes live in \<open>boto3\<close>, \<open>openai_services\<close> and
  \<open>rag_pipeline\<close>; an object is represented by the arguments it was constructed with.
\<close>

datatype aws_session = Session string

datatype aws_client = Client aws_session string

datatype embedding_service = OpenAIEmbeddingService "string option" string

datatype generation_service = OpenAIGenerationService "string option" string

datatype retrieval_service = RetrievalService aws_client aws_client string

datatype prompt_augmenter = PromptAugmenter string

record services =
  aws_session :: aws_session
  s3_client :: aws_client
  vector_client :: aws_client
  embedding_service :: embedding_service
  generation_service :: generation_service
  retrieval_service :: retrieval_service
  augmenter :: prompt_augmenter

definition initialize_services :: "(string \<Rightarrow> string) \<Rightarrow> config \<Rightarrow> services" where
  "initialize_services load_config cfg =
     (let session = Session (vector_region cfg);
          s3 = Client session ''s3'';
          vector_svc = Client session ''s3vectors'';
          emb = OpenAIEmbeddingService (api_key cfg) (load_config ''embedding_model'');
          gen = OpenAIGenerationService (api_key cfg) (load_config ''inference_model'');
          retr = RetrievalService vector_svc s3 (load_config ''reranker_model'');
          aug = PromptAugmenter ''rag_prompt.md''
      in \<lparr>aws_session = session, s3_client = s3, vector_client = vector_svc,
          embedding_service = emb, generation_service = gen,
          retrieval_service = retr, augmenter = aug\<rparr>)"

record processor_config =
  retrieval :: retrieval_config

datatype query_processor =
  QueryProcessor
    (qp_embedding_service: embedding_service)
    (qp_retrieval_service: retrieval_service)
    (qp_prompt_augmenter: prompt_augmenter)
    (qp_generation_service: generation_service)
    (qp_config: processor_config)

section \<open>The application: session state, events and outcomes\<close>

record chat_entry =
  user :: string
  bot :: string

text \<open>
  \<open>st.session_state\<close>: the keys the application uses. A key that is absent is \<open>None\<close>.
\<close>

record session_state =
  username :: "string option"
  password :: "string option"
  password_correct :: "bool option"
  chat_history :: "chat_entry list option"
  base_services :: "services option"
  selected_question :: "string option"

text \<open>
  What a script run does beyond changing the session state, in program order:
  \<open>initialize_services\<close> ran, the timer took a mark, \<open>process_query\<close> was invoked on a
  processor with a question, an entry was appended to the chat history.
\<close>

datatype event =
    Initialized services
  | Marked string nat
  | Queried query_processor string
  | Appended chat_entry

text \<open>
  How a script run ends: it reaches the end of \<open>main\<close>, \<open>st.stop()\<close> halts it,
  \<open>st.rerun()\<close> restarts it, or an exception leaves it.
\<close>

datatype status = Completed | Stopped | Rerun | Raised error

text \<open>
  The outside world of the application: the process environment, \<open>helpers.load_config\<close>,
  the digest \<open>sha256(s.encode()).hexdigest()\<close>, and \<open>QueryProcessor.process_query\<close>
  (module \<open>rag_pipeline\<close>), which per sections 4.6 and 5 of the specification maps the
  processor and the question to an answer or to one of the pipeline's errors and writes no
  shared state.
\<close>

record world =
  getenv :: "string \<Rightarrow> string option"
  load_config :: "string \<Rightarrow> string"
  sha256_hexdigest :: "string \<Rightarrow> string"
  process_query :: "query_processor \<Rightarrow> string \<Rightarrow> error + string"

text \<open>Python's truth value of an optional string: \<open>None\<close> and \<open>""\<close> are false.\<close>

definition truthy :: "string option \<Rightarrow> bool" where
  "truthy s = (case s of None \<Rightarrow> False | Some x \<Rightarrow> x \<noteq> [])"

definition history_entries :: "session_state \<Rightarrow> chat_entry list" where
  "history_entries st = (case chat_history st of None \<Rightarrow> [] | Some h \<Rightarrow> h)"

section \<open>check_authentication\<close>

text \<open>
  The callback \<open>password_entered\<close> (lines 58 to 66). Reading a missing key of the session
  state raises \<open>KeyError\<close> (line 59); the expected credentials come from \<open>os.getenv\<close>,
  and \<open>+\<close> on \<open>None\<close> raises \<open>TypeError\<close> (line 60).
\<close>

definition password_entered ::
  "(string \<Rightarrow> string) \<Rightarrow> string option \<Rightarrow> string option \<Rightarrow> session_state \<Rightarrow>
     error + session_state" where
  "password_entered sha256 expected_username expected_password st =
     (case username st of
        None \<Rightarrow> Inl KeyError
      | Some eu \<Rightarrow>
          (case password st of
             None \<Rightarrow> Inl KeyError
           | Some ep \<Rightarrow>
               (case expected_username of
                  None \<Rightarrow> Inl TypeError
                | Some xu \<Rightarrow>
                    (case expected_password of
                       None \<Rightarrow> Inl TypeError
                     | Some xp \<Rightarrow>
                         (let entered_combo = eu @ ep;
                              expected_combo = xu @ xp
                          in if sha256 entered_combo = sha256 expected_combo
                             then Inr (st\<lparr>password_correct := Some True, password := None\<rparr>)
                             else Inr (st\<lparr>password_correct := Some False\<rparr>))))))"

text \<open>
  \<open>st.text_input(..., value="", key=k)\<close> registers the key \<open>k\<close> in the session state,
  with the empty string unless the key already holds a value.
\<close>

definition text_input_username :: "session_state \<Rightarrow> session_state" where
  "text_input_username st =
     (case username st of None \<Rightarrow> st\<lparr>username := Some []\<rparr> | Some v \<Rightarrow> st)"

definition text_input_password :: "session_state \<Rightarrow> session_state" where
  "text_input_password st =
     (case password st of None \<Rightarrow> st\<lparr>password := Some []\<rparr> | Some v \<Rightarrow> st)"

text \<open>
  The body of \<open>check_authentication\<close> (lines 68 to 74): \<open>Some Stopped\<close> when \<open>st.stop()\<close>
  halts the run, \<open>None\<close> when the function returns and the script goes on.
\<close>

definition check_authentication :: "session_state \<Rightarrow> status option \<times> session_state" where
  "check_authentication st =
     (case password_correct st of
        None \<Rightarrow> (Some Stopped, text_input_password (text_input_username st))
      | Some ok \<Rightarrow> if \<not> ok then (Some Stopped, st) else (None, st))"

section \<open>setup_sidebar\<close>

text \<open>
  The suggested questions, by category. The category labels are only displayed; their
  leading pictographs are left out here.
\<close>

definition questions :: "(string \<times> string list) list" where
  "questions =
     [(''System Security'',
       [''How can I verify that DHCP servers aren't installed on my systems and what should I do if they are?'',
        ''I want to make sure my machines aren't acting as DHCP servers to reduce attack surface.'']),
      (''Microsoft 365'',
       [''What's the recommended number of global administrators in Microsoft 365, and how do I audit it?'',
        ''I need to ensure that I have the right number of global administrators configured in my Microsoft 365 tenant.'']),
      (''AWS Storage'',
       [''How do I implement and validate the use of Amazon EFS to improve my storage deployment process?'',
        ''I want to simplify file system management by using Amazon's managed EFS solution.'']),
      (''Oracle Cloud (OCI)'',
       [''How do I check whether object storage versioning is enabled in OCI, and why is it important?'',
        ''I want to ensure that my object storage buckets in Oracle Cloud have versioning enabled.'',
        ''What steps can I take to confirm that no object storage buckets in my OCI environment are publicly accessible?'',
        ''I'm trying to make sure all my Oracle Cloud buckets are private and not publicly visible.''])]"

definition button_label :: "string \<Rightarrow> string" where
  "button_label question = (if 60 < length question then take 60 question @ ''...'' else question)"

text \<open>
  What the widgets of one script run return: which question buttons report a click, the
  values the user has set the two sliders to (\<open>None\<close>: the slider was never moved), the
  text submitted to the chat input, and the clock readings the timer takes around the
  query for the selected question and around the query for the chat input.
\<close>

record inputs =
  clicked :: "string \<Rightarrow> bool"
  top_k_slider :: "int option"
  threshold_slider :: "real option"
  chat_input :: "string option"
  ticks_selected :: "nat \<times> nat"
  ticks_chat :: "nat \<times> nat"

text \<open>The inner loop (lines 146 to 151): the first clicked button stores its question and reruns.\<close>

fun question_buttons :: "(string \<Rightarrow> bool) \<Rightarrow> string list \<Rightarrow> session_state \<Rightarrow> bool \<times> session_state" where
  "question_buttons click [] st = (False, st)"
| "question_buttons click (question # rest) st =
     (if click question then (True, st\<lparr>selected_question := Some question\<rparr>)
      else question_buttons click rest st)"

text \<open>The outer loop (line 144) over the categories.\<close>

fun category_buttons ::
  "(string \<Rightarrow> bool) \<Rightarrow> (string \<times> string list) list \<Rightarrow> session_state \<Rightarrow> bool \<times> session_state" where
  "category_buttons click [] st = (False, st)"
| "category_buttons click ((category, question_list) # rest) st =
     (case question_buttons click question_list st of
        (True, st') \<Rightarrow> (True, st')
      | (False, st') \<Rightarrow> category_buttons click rest st')"

text \<open>
  \<open>st.sidebar.slider(label, lo, hi, default)\<close> returns the default until the user moves
  the slider, and then the value chosen. The widget holds only values between \<open>lo\<close> and
  \<open>hi\<close>: a value outside that range is not taken and the default stands.
\<close>

definition slider :: "'a::linorder \<Rightarrow> 'a \<Rightarrow> 'a \<Rightarrow> 'a option \<Rightarrow> 'a" where
  "slider lo hi dflt chosen =
     (case chosen of
        None \<Rightarrow> dflt
      | Some v \<Rightarrow> if lo \<le> v \<and> v \<le> hi then v else dflt)"

definition setup_sidebar :: "inputs \<Rightarrow> session_state \<Rightarrow> (int \<times> real) option \<times> session_state" where
  "setup_sidebar inp st =
     (case category_buttons (clicked inp) questions st of
        (True, st') \<Rightarrow> (None, st')
      | (False, st') \<Rightarrow>
          (let top_k = slider 1 10 3 (top_k_slider inp);
               similarity_threshold = slider 0 1 (32 / 100) (threshold_slider inp)
           in (Some (top_k, similarity_threshold), st')))"

section \<open>process_user_query\<close>

text \<open>
  Modelled from the spec: \<open>ProcessTimer\<close> of module \<open>log_time\<close>, which is not among the
  sources. Section 6: an instrument that records named mark events for latency
  measurement and is purely observational. A mark records its name with the clock reading
  it takes, and does nothing else.
\<close>

definition mark :: "string \<Rightarrow> nat \<Rightarrow> event list" where
  "mark name tick = [Marked name tick]"

text \<open>
  \<open>process_user_query\<close> (lines 164 to 188). \<open>st.session_state.base_services\<close> and
  \<open>st.session_state.chat_history\<close> raise \<open>AttributeError\<close> when the key is absent; an
  exception of \<open>process_query\<close> leaves the function at line 185. The result is the
  exception raised, if any, the session state, and the events in program order.
\<close>

definition process_user_query ::
  "(query_processor \<Rightarrow> string \<Rightarrow> error + string) \<Rightarrow> nat \<times> nat \<Rightarrow> string \<Rightarrow> int \<Rightarrow> real \<Rightarrow>
     session_state \<Rightarrow> error option \<times> session_state \<times> event list" where
  "process_user_query pq ticks user_input k t st =
     (let current_config = \<lparr>retrieval = \<lparr>top_k = k, similarity_threshold = t\<rparr>\<rparr>
      in case base_services st of
           None \<Rightarrow> (Some AttributeError, st, [])
         | Some svc \<Rightarrow>
             (let processor = QueryProcessor (embedding_service svc) (retrieval_service svc)
                                (augmenter svc) (generation_service svc) current_config;
                  ev1 = mark ''RAG Processing Query'' (fst ticks) @ [Queried processor user_input]
              in case pq processor user_input of
                   Inl e \<Rightarrow> (Some e, st, ev1)
                 | Inr response \<Rightarrow>
                     (let ev2 = ev1 @ mark ''RAG Processing Query'' (snd ticks)
                      in case chat_history st of
                           None \<Rightarrow> (Some AttributeError, st, ev2)
                         | Some h \<Rightarrow>
                             (let entry = \<lparr>user = user_input, bot = response\<rparr>
                              in (None, st\<lparr>chat_history := Some (h @ [entry])\<rparr>,
                                  ev2 @ [Appended entry])))))"

text \<open>The same function with the two \<open>pt.mark\<close> lines (184 and 186) removed.\<close>

definition process_user_query_unmarked ::
  "(query_processor \<Rightarrow> string \<Rightarrow> error + string) \<Rightarrow> string \<Rightarrow> int \<Rightarrow> real \<Rightarrow>
     session_state \<Rightarrow> error option \<times> session_state \<times> event list" where
  "process_user_query_unmarked pq user_input k t st =
     (let current_config = \<lparr>retrieval = \<lparr>top_k = k, similarity_threshold = t\<rparr>\<rparr>
      in case base_services st of
           None \<Rightarrow> (Some AttributeError, st, [])
         | Some svc \<Rightarrow>
             (let processor = QueryProcessor (embedding_service svc) (retrieval_service svc)
                                (augmenter svc) (generation_service svc) current_config;
                  ev1 = [Queried processor user_input]
              in case pq processor user_input of
                   Inl e \<Rightarrow> (Some e, st, ev1)
                 | Inr response \<Rightarrow>
                     (case chat_history st of
                        None \<Rightarrow> (Some AttributeError, st, ev1)
                      | Some h \<Rightarrow>
                          (let entry = \<lparr>user = user_input, bot = response\<rparr>
                           in (None, st\<lparr>chat_history := Some (h @ [entry])\<rparr>,
                               ev1 @ [Appended entry])))))"

fun is_mark :: "event \<Rightarrow> bool" where
  "is_mark (Marked name tick) = True"
| "is_mark e = False"

definition without_marks :: "event list \<Rightarrow> event list" where
  "without_marks ev = filter (\<lambda>e. \<not> is_mark e) ev"

fun is_query :: "event \<Rightarrow> bool" where
  "is_query (Queried p q) = True"
| "is_query e = False"

fun is_init :: "event \<Rightarrow> bool" where
  "is_init (Initialized s) = True"
| "is_init e = False"

fun is_append :: "event \<Rightarrow> bool" where
  "is_append (Appended e) = True"
| "is_append e = False"

section \<open>main\<close>

text \<open>Lines 260 to 265: the question selected in the sidebar is cleared, then processed if there is an API key.\<close>

definition main_selected_question ::
  "world \<Rightarrow> config \<Rightarrow> inputs \<Rightarrow> int \<Rightarrow> real \<Rightarrow> session_state \<Rightarrow>
     error option \<times> session_state \<times> event list" where
  "main_selected_question w cfg inp k t st =
     (case selected_question st of
        None \<Rightarrow> (None, st, [])
      | Some selected \<Rightarrow>
          (let st' = st\<lparr>selected_question := None\<rparr>
           in if truthy (api_key cfg)
              then process_user_query (process_query w) (ticks_selected inp) selected k t st'
              else (None, st', [])))"

text \<open>Lines 267 to 270: the chat input is processed if it is non-empty and there is an API key.\<close>

definition main_user_input ::
  "world \<Rightarrow> config \<Rightarrow> inputs \<Rightarrow> int \<Rightarrow> real \<Rightarrow> session_state \<Rightarrow>
     error option \<times> session_state \<times> event list" where
  "main_user_input w cfg inp k t st =
     (case chat_input inp of
        None \<Rightarrow> (None, st, [])
      | Some user_input \<Rightarrow>
          if user_input \<noteq> [] \<and> truthy (api_key cfg)
          then process_user_query (process_query w) (ticks_chat inp) user_input k t st
          else (None, st, []))"

text \<open>
  One run of the script (lines 238 to 276). The calls that only draw the page
  (\<open>setup_page_config\<close>, \<open>display_chat_history\<close>, \<open>display_footer\<close>) change no state and
  are left out. The session state survives the run however it ends.
\<close>

definition main :: "world \<Rightarrow> inputs \<Rightarrow> session_state \<Rightarrow> status \<times> session_state \<times> event list" where
  "main w inp st0 =
     (let cfg = load_environment_config (getenv w) (load_config w)
      in case check_authentication st0 of
           (Some halted, st1) \<Rightarrow> (halted, st1, [])
         | (None, st1) \<Rightarrow>
             (let st2 = (if chat_history st1 = None then st1\<lparr>chat_history := Some []\<rparr> else st1);
                  svc = initialize_services (load_config w) cfg;
                  st3 = (if base_services st2 = None then st2\<lparr>base_services := Some svc\<rparr> else st2);
                  ev3 = (if base_services st2 = None then [Initialized svc] else [])
              in case setup_sidebar inp st3 of
                   (None, st4) \<Rightarrow> (Rerun, st4, ev3)
                 | (Some (k, t), st4) \<Rightarrow>
                     (case main_selected_question w cfg inp k t st4 of
                        (Some e, st5, ev5) \<Rightarrow> (Raised e, st5, ev3 @ ev5)
                      | (None, st5, ev5) \<Rightarrow>
                          (case main_user_input w cfg inp k t st5 of
                             (Some e, st6, ev6) \<Rightarrow> (Raised e, st6, ev3 @ ev5 @ ev6)
                           | (None, st6, ev6) \<Rightarrow> (Completed, st6, ev3 @ ev5 @ ev6)))))"

section \<open>A session: callbacks and script runs\<close>

text \<open>
  A session is a sequence of steps on one session state. \<open>Submit u p\<close>: the user submits
  the password field while the two text fields hold \<open>u\<close> and \<open>p\<close>; the widget values are
  written to their keys and the \<open>on_change\<close> callback runs. \<open>Run inp\<close>: the script runs
  with the widget values \<open>inp\<close>.
\<close>

datatype step = Submit string string | Run inputs

definition session_step :: "world \<Rightarrow> step \<Rightarrow> session_state \<Rightarrow> session_state \<times> event list" where
  "session_step w s st =
     (case s of
        Submit u p \<Rightarrow>
          (let cfg = load_environment_config (getenv w) (load_config w);
               st' = st\<lparr>username := Some u, password := Some p\<rparr>
           in case password_entered (sha256_hexdigest w) (demo_username cfg) (demo_password cfg) st' of
                Inl e \<Rightarrow> (st', [])
              | Inr st'' \<Rightarrow> (st'', []))
      | Run inp \<Rightarrow> (case main w inp st of (halted, st', ev) \<Rightarrow> (st', ev)))"

fun session_run :: "world \<Rightarrow> step list \<Rightarrow> session_state \<Rightarrow> session_state \<times> event list" where
  "session_run w [] st = (st, [])"
| "session_run w (s # rest) st =
     (case session_step w s st of
        (st', ev) \<Rightarrow> (case session_run w rest st' of (st'', ev') \<Rightarrow> (st'', ev @ ev')))"

text \<open>A processor that holds exactly the four pipeline services of \<open>svc\<close>.\<close>

definition built_from :: "services \<Rightarrow> query_processor \<Rightarrow> bool" where
  "built_from svc p \<longleftrightarrow>
     qp_embedding_service p = embedding_service svc \<and>
     qp_retrieval_service p = retrieval_service svc \<and>
     qp_prompt_augmenter p = augmenter svc \<and>
     qp_generation_service p = generation_service svc"


text \<open>
  What a sequence of steps from \<open>st\<close> to \<open>st'\<close> with events \<open>ev\<close> keeps true: services
  present at the start are still there and nothing was initialized; services absent at the
  start are still absent, or were initialized exactly once and stored; every query was made
  on a processor built from the stored services, with the configuration the sliders of
  some run of the sequence gave.
\<close>

definition session_inv ::
  "world \<Rightarrow> step list \<Rightarrow> session_state \<Rightarrow> session_state \<Rightarrow> event list \<Rightarrow> bool" where
  "session_inv w steps st st' ev \<longleftrightarrow>
     (case base_services st of
        Some svc \<Rightarrow> base_services st' = Some svc \<and> filter is_init ev = []
      | None \<Rightarrow>
          (base_services st' = None \<and> filter is_init ev = []) \<or>
          (base_services st' =
             Some (initialize_services (load_config w)
                     (load_environment_config (getenv w) (load_config w))) \<and>
           filter is_init ev =
             [Initialized (initialize_services (load_config w)
                (load_environment_config (getenv w) (load_config w)))])) \<and>
     (\<forall>p q. Queried p q \<in> set ev \<longrightarrow>
        (\<exists>svc. base_services st' = Some svc \<and> built_from svc p) \<and>
        (\<exists>inp. Run inp \<in> set steps \<and>
           retrieval (qp_config p) =
             \<lparr>top_k = slider 1 10 3 (top_k_slider inp),
              similarity_threshold = slider 0 1 (32 / 100) (threshold_slider inp)\<rparr>))"

section \<open>Concrete inputs\<close>

text \<open>
  A small world to run the definitions on: the digest is the identity, a stand-in without
  collisions, and the pipeline answers every question by echoing it.
\<close>

definition example_world :: world where
  "example_world =
     \<lparr>getenv = (\<lambda>k. if k = ''OPENAI_API_KEY'' then Some ''sk-test''
                    else if k = ''DEMO_USERNAME'' then Some ''a''
                    else if k = ''DEMO_PASSWORD'' then Some ''bc''
                    else None),
      load_config = (\<lambda>k. k),
      sha256_hexdigest = (\<lambda>s. s),
      process_query = (\<lambda>p q. Inr (''re: '' @ q))\<rparr>"

definition example_services :: services where
  "example_services =
     initialize_services (load_config example_world)
       (load_environment_config (getenv example_world) (load_config example_world))"

definition example_state :: session_state where
  "example_state =
     \<lparr>username = None, password = None, password_correct = Some True,
      chat_history = Some [], base_services = Some example_services,
      selected_question = None\<rparr>"

definition fresh_state :: session_state where
  "fresh_state =
     \<lparr>username = None, password = None, password_correct = None,
      chat_history = None, base_services = None, selected_question = None\<rparr>"

definition example_inputs :: inputs where
  "example_inputs =
     \<lparr>clicked = (\<lambda>q. False), top_k_slider = Some 5, threshold_slider = None,
      chat_input = Some ''hello'', ticks_selected = (0, 1), ticks_chat = (2, 3)\<rparr>"

definition example_processor :: "int \<Rightarrow> real \<Rightarrow> query_processor" where
  "example_processor k t =
     QueryProcessor (embedding_service example_services) (retrieval_service example_services)
       (augmenter example_services) (generation_service example_services)
       \<lparr>retrieval = \<lparr>top_k = k, similarity_threshold = t\<rparr>\<rparr>"

text \<open>The same world with an empty \<open>OPENAI_API_KEY\<close>.\<close>

definition keyless_world :: world where
  "keyless_world =
     example_world\<lparr>getenv := (\<lambda>k. if k = ''OPENAI_API_KEY'' then Some [] else None)\<rparr>"

text \<open>A session state that has passed authentication and holds nothing else yet.\<close>

definition authenticated_state :: session_state where
  "authenticated_state = fresh_state\<lparr>password_correct := Some True\<rparr>"

text \<open>
  A vector store with three chunks, and a reranker that puts the chunk \<open>c\<close> first.
\<close>

definition example_store :: "real list \<Rightarrow> error + chunk list" where
  "example_store q =
     Inr [\<lparr>chunk_id = ''a'', source_text = ''alpha'', embedding = [0, 1]\<rparr>,
          \<lparr>chunk_id = ''c'', source_text = ''gamma'', embedding = [3, 4]\<rparr>,
          \<lparr>chunk_id = ''b'', source_text = ''beta'', embedding = [1, 0]\<rparr>]"

definition example_relevance :: "chunk \<Rightarrow> real" where
  "example_relevance c = (if chunk_id c = ''c'' then 2 else 1)"

text \<open>A stand-in digest of 64 characters: the first 64 of the text, padded with zeros.\<close>

definition padded_digest :: "string \<Rightarrow> string" where
  "padded_digest s = take 64 (s @ replicate 64 (CHR ''0''))"

text \<open>A pipeline whose generation stage fails on every question.\<close>

definition failing_pipeline :: "query_processor \<Rightarrow> string \<Rightarrow> error + string" where
  "failing_pipeline p q = Inl GenerationError"

section \<open>Properties of the scorer and of retrieval\<close>

lemma dot_self_nonneg: "0 \<le> dot a a"
  unfolding dot_def by (induction a) simp_all

lemma euclidean_norm_zero_iff: "euclidean_norm a = 0 \<longleftrightarrow> (\<forall>x \<in> set a. x = 0)"
proof -
  have "dot a a = 0 \<longleftrightarrow> (\<forall>x \<in> set a. x = 0)"
  proof (induction a)
    case Nil
    show ?case by (simp add: dot_def)
  next
    case (Cons x xs)
    have nn: "0 \<le> dot xs xs" by (rule dot_self_nonneg)
    have "dot (x # xs) (x # xs) = x * x + dot xs xs" by (simp add: dot_def)
    moreover have "x * x + dot xs xs = 0 \<longleftrightarrow> x = 0 \<and> dot xs xs = 0"
      using nn by (simp add: add_nonneg_eq_0_iff)
    ultimately show ?case using Cons.IH by simp
  qed
  then show ?thesis by (simp add: euclidean_norm_def)
qed

lemma score_never_nan: "score a b \<noteq> Inr NaN"
  by (simp add: score_def fdiv_def)

lemma sorted_wrt_sort_desc: "sorted_wrt (\<lambda>x y. f y \<le> f x) (sort_desc f xs)"
proof -
  have "sorted (map (\<lambda>x. - f x) (sort_key (\<lambda>x. - f x) xs))" by (rule sorted_sort_key)
  then show ?thesis by (simp add: sort_desc_def sorted_wrt_map)
qed

lemma set_sort_desc: "set (sort_desc f xs) = set xs"
  by (simp add: sort_desc_def)

section \<open>Properties of the application\<close>


lemma puq_cases:
  "process_user_query pq ticks q k t st =
     (case base_services st of
        None \<Rightarrow> (Some AttributeError, st, [])
      | Some svc \<Rightarrow>
         (let p = QueryProcessor (embedding_service svc) (retrieval_service svc) (augmenter svc)
                    (generation_service svc) \<lparr>retrieval = \<lparr>top_k = k, similarity_threshold = t\<rparr>\<rparr>
          in case pq p q of
               Inl e \<Rightarrow> (Some e, st, [Marked ''RAG Processing Query'' (fst ticks), Queried p q])
             | Inr r \<Rightarrow>
                (case chat_history st of
                   None \<Rightarrow> (Some AttributeError, st,
                       [Marked ''RAG Processing Query'' (fst ticks), Queried p q,
                        Marked ''RAG Processing Query'' (snd ticks)])
                 | Some h \<Rightarrow> (None, st\<lparr>chat_history := Some (h @ [\<lparr>user = q, bot = r\<rparr>])\<rparr>,
                       [Marked ''RAG Processing Query'' (fst ticks), Queried p q,
                        Marked ''RAG Processing Query'' (snd ticks), Appended \<lparr>user = q, bot = r\<rparr>]))))"
  by (simp add: process_user_query_def mark_def Let_def split: option.splits sum.splits)

lemma puq_frame:
  assumes "process_user_query pq ticks q k t st = (r, st', ev)"
  shows "st' = st\<lparr>chat_history := chat_history st'\<rparr>"
  using assms by (auto simp: puq_cases Let_def split: option.splits sum.splits)

lemma puq_events:
  assumes "process_user_query pq ticks q k t st = (r, st', ev)" and "Queried p q' \<in> set ev"
  shows "\<exists>svc. base_services st = Some svc \<and> built_from svc p \<and>
           retrieval (qp_config p) = \<lparr>top_k = k, similarity_threshold = t\<rparr> \<and> q' = q"
  using assms by (auto simp: puq_cases Let_def built_from_def split: option.splits sum.splits)

lemma puq_no_init:
  assumes "process_user_query pq ticks q k t st = (r, st', ev)"
  shows "filter is_init ev = []"
  using assms by (auto simp: puq_cases Let_def split: option.splits sum.splits)


lemma check_authentication_frame:
  assumes "check_authentication st = (a, st1)"
  shows "base_services st1 = base_services st \<and> chat_history st1 = chat_history st \<and>
         selected_question st1 = selected_question st"
  using assms
  by (auto simp: check_authentication_def text_input_username_def text_input_password_def
           split: option.splits if_splits)

lemma question_buttons_frame:
  assumes "question_buttons click qs st = (b, st')"
  shows "base_services st' = base_services st \<and> chat_history st' = chat_history st \<and>
         (\<not> b \<longrightarrow> st' = st)"
  using assms by (induction qs arbitrary: st) (auto split: if_splits)

lemma category_buttons_frame:
  assumes "category_buttons click cs st = (b, st')"
  shows "base_services st' = base_services st \<and> chat_history st' = chat_history st \<and>
         (\<not> b \<longrightarrow> st' = st)"
  using assms
proof (induction cs arbitrary: st)
  case Nil
  then show ?case by simp
next
  case (Cons c cs)
  obtain category question_list where c: "c = (category, question_list)" by (cases c)
  obtain b1 st1 where q: "question_buttons click question_list st = (b1, st1)"
    by (cases "question_buttons click question_list st")
  note f = question_buttons_frame [OF q]
  show ?case
  proof (cases b1)
    case True
    with Cons.prems c q f show ?thesis by simp
  next
    case False
    with Cons.prems c q have "category_buttons click cs st1 = (b, st')" by simp
    from Cons.IH [OF this] f False show ?thesis by simp
  qed
qed

lemma setup_sidebar_frame:
  assumes "setup_sidebar inp st = (r, st')"
  shows "base_services st' = base_services st \<and> chat_history st' = chat_history st \<and>
         (\<forall>k t. r = Some (k, t) \<longrightarrow> st' = st \<and> k = slider 1 10 3 (top_k_slider inp) \<and>
            t = slider 0 1 (32 / 100) (threshold_slider inp))"
proof -
  obtain b st1 where c: "category_buttons (clicked inp) questions st = (b, st1)"
    by (cases "category_buttons (clicked inp) questions st")
  from category_buttons_frame [OF c] assms c show ?thesis
    by (cases b) (auto simp: setup_sidebar_def Let_def)
qed

lemma main_selected_question_cases:
  "main_selected_question w cfg inp k t st =
     (case selected_question st of
        None \<Rightarrow> (None, st, [])
      | Some selected \<Rightarrow>
          if truthy (api_key cfg)
          then process_user_query (process_query w) (ticks_selected inp) selected k t
                 (st\<lparr>selected_question := None\<rparr>)
          else (None, st\<lparr>selected_question := None\<rparr>, []))"
  by (simp add: main_selected_question_def Let_def split: option.splits)

lemma puq_base_services:
  assumes "process_user_query pq ticks q k t st = (r, st', ev)"
  shows "base_services st' = base_services st \<and> selected_question st' = selected_question st"
  using assms by (auto simp: puq_cases Let_def split: option.splits sum.splits)

lemma main_selected_question_frame:
  assumes "main_selected_question w cfg inp k t st = (r, st', ev)"
  shows "base_services st' = base_services st \<and> filter is_init ev = [] \<and>
         selected_question st' = None \<and>
         (\<forall>p q. Queried p q \<in> set ev \<longrightarrow>
            truthy (api_key cfg) \<and>
            (\<exists>svc. base_services st = Some svc \<and> built_from svc p) \<and>
            retrieval (qp_config p) = \<lparr>top_k = k, similarity_threshold = t\<rparr>)"
proof (cases "selected_question st")
  case None
  with assms show ?thesis by (auto simp: main_selected_question_cases)
next
  case (Some selected)
  show ?thesis
  proof (cases "truthy (api_key cfg)")
    case False
    with assms Some show ?thesis by (auto simp: main_selected_question_cases)
  next
    case True
    with assms Some have p: "process_user_query (process_query w) (ticks_selected inp) selected k t
                 (st\<lparr>selected_question := None\<rparr>) = (r, st', ev)"
      by (simp add: main_selected_question_cases)
    from puq_base_services [OF p] puq_no_init [OF p] puq_events [OF p] True
    show ?thesis by fastforce
  qed
qed

lemma main_user_input_frame:
  assumes "main_user_input w cfg inp k t st = (r, st', ev)"
  shows "base_services st' = base_services st \<and> filter is_init ev = [] \<and>
         selected_question st' = selected_question st \<and>
         (\<forall>p q. Queried p q \<in> set ev \<longrightarrow>
            truthy (api_key cfg) \<and>
            (\<exists>svc. base_services st = Some svc \<and> built_from svc p) \<and>
            retrieval (qp_config p) = \<lparr>top_k = k, similarity_threshold = t\<rparr>)"
proof (cases "chat_input inp")
  case None
  with assms show ?thesis by (auto simp: main_user_input_def)
next
  case (Some user_input)
  show ?thesis
  proof (cases "user_input \<noteq> [] \<and> truthy (api_key cfg)")
    case False
    with assms Some show ?thesis by (auto simp: main_user_input_def)
  next
    case True
    with assms Some have p: "process_user_query (process_query w) (ticks_chat inp) user_input k t st
                 = (r, st', ev)"
      by (simp add: main_user_input_def)
    from puq_base_services [OF p] puq_no_init [OF p] puq_events [OF p] True
    show ?thesis by fastforce
  qed
qed


lemma main_halted:
  assumes "check_authentication st = (Some h, st1)"
  shows "main w inp st = (h, st1, [])"
  using assms by (simp add: main_def)

lemma main_continues:
  fixes w :: world
  assumes ca: "check_authentication st = (None, st1)"
  defines "cfg \<equiv> load_environment_config (getenv w) (load_config w)"
  defines "st2 \<equiv> (if chat_history st1 = None then st1\<lparr>chat_history := Some []\<rparr> else st1)"
  defines "svc \<equiv> initialize_services (load_config w) cfg"
  defines "st3 \<equiv> (if base_services st2 = None then st2\<lparr>base_services := Some svc\<rparr> else st2)"
  defines "ev3 \<equiv> (if base_services st2 = None then [Initialized svc] else [])"
  shows "main w inp st =
     (case setup_sidebar inp st3 of
        (None, st4) \<Rightarrow> (Rerun, st4, ev3)
      | (Some (k, t), st4) \<Rightarrow>
          (case main_selected_question w cfg inp k t st4 of
             (Some e, st5, ev5) \<Rightarrow> (Raised e, st5, ev3 @ ev5)
           | (None, st5, ev5) \<Rightarrow>
               (case main_user_input w cfg inp k t st5 of
                  (Some e, st6, ev6) \<Rightarrow> (Raised e, st6, ev3 @ ev5 @ ev6)
                | (None, st6, ev6) \<Rightarrow> (Completed, st6, ev3 @ ev5 @ ev6))))"
  using ca unfolding cfg_def st2_def svc_def st3_def ev3_def
  by (simp add: main_def Let_def)

lemma main_summary:
  fixes w :: world
  assumes m: "main w inp st = (s, st', ev)"
  defines "svc0 \<equiv> initialize_services (load_config w) (load_environment_config (getenv w) (load_config w))"
  shows "(case base_services st of
            Some svc \<Rightarrow> base_services st' = Some svc \<and> filter is_init ev = []
          | None \<Rightarrow> (base_services st' = None \<and> ev = []) \<or>
                    (base_services st' = Some svc0 \<and> filter is_init ev = [Initialized svc0]))"
    and "\<forall>p q. Queried p q \<in> set ev \<longrightarrow>
           truthy (api_key (load_environment_config (getenv w) (load_config w))) \<and>
           (\<exists>svc. base_services st' = Some svc \<and> built_from svc p) \<and>
           retrieval (qp_config p) =
             \<lparr>top_k = slider 1 10 3 (top_k_slider inp),
              similarity_threshold = slider 0 1 (32 / 100) (threshold_slider inp)\<rparr>"
proof -
  define cfg where "cfg = load_environment_config (getenv w) (load_config w)"
  obtain a st1 where ca: "check_authentication st = (a, st1)"
    by (cases "check_authentication st")
  note f1 = check_authentication_frame [OF ca]
  have both: "(case base_services st of
            Some svc \<Rightarrow> base_services st' = Some svc \<and> filter is_init ev = []
          | None \<Rightarrow> (base_services st' = None \<and> ev = []) \<or>
                    (base_services st' = Some svc0 \<and> filter is_init ev = [Initialized svc0])) \<and>
         (\<forall>p q. Queried p q \<in> set ev \<longrightarrow>
           truthy (api_key cfg) \<and>
           (\<exists>svc. base_services st' = Some svc \<and> built_from svc p) \<and>
           retrieval (qp_config p) =
             \<lparr>top_k = slider 1 10 3 (top_k_slider inp),
              similarity_threshold = slider 0 1 (32 / 100) (threshold_slider inp)\<rparr>)"
  proof (cases a)
    case (Some h)
    with main_halted [of st h st1 w inp] ca m f1 show ?thesis
      by (auto split: option.splits)
  next
    case None
    define st2 where "st2 = (if chat_history st1 = None then st1\<lparr>chat_history := Some []\<rparr> else st1)"
    define st3 where "st3 = (if base_services st2 = None then st2\<lparr>base_services := Some svc0\<rparr> else st2)"
    define ev3 where "ev3 = (if base_services st2 = None then [Initialized svc0] else [])"
    have b2: "base_services st2 = base_services st" using f1 by (simp add: st2_def)
    have b3: "base_services st3 = (case base_services st of None \<Rightarrow> Some svc0 | Some x \<Rightarrow> Some x)"
      using b2 by (auto simp: st3_def split: option.splits)
    have i3: "filter is_init ev3 = ev3" "\<forall>p q. Queried p q \<notin> set ev3"
      by (auto simp: ev3_def)
    have e3: "ev3 = (case base_services st of None \<Rightarrow> [Initialized svc0] | Some x \<Rightarrow> [])"
      using b2 by (auto simp: ev3_def split: option.splits)
    have mm: "main w inp st =
     (case setup_sidebar inp st3 of
        (None, st4) \<Rightarrow> (Rerun, st4, ev3)
      | (Some (k, t), st4) \<Rightarrow>
          (case main_selected_question w cfg inp k t st4 of
             (Some e, st5, ev5) \<Rightarrow> (Raised e, st5, ev3 @ ev5)
           | (None, st5, ev5) \<Rightarrow>
               (case main_user_input w cfg inp k t st5 of
                  (Some e, st6, ev6) \<Rightarrow> (Raised e, st6, ev3 @ ev5 @ ev6)
                | (None, st6, ev6) \<Rightarrow> (Completed, st6, ev3 @ ev5 @ ev6))))"
      using main_continues [of st st1 w inp] ca None
      unfolding cfg_def st2_def st3_def ev3_def svc0_def by simp
    obtain r st4 where ss: "setup_sidebar inp st3 = (r, st4)" by (cases "setup_sidebar inp st3")
    note f4 = setup_sidebar_frame [OF ss]
    show ?thesis
    proof (cases r)
      case None
      with mm ss m have "st' = st4" "ev = ev3" by simp_all
      with f4 b3 e3 show ?thesis by (auto split: option.splits)
    next
      case (Some kt)
      obtain k t where kt: "kt = (k, t)" by (cases kt)
      have kv: "k = slider 1 10 3 (top_k_slider inp)" "t = slider 0 1 (32 / 100) (threshold_slider inp)"
        using f4 Some kt by simp_all
      obtain r5 st5 ev5 where s5: "main_selected_question w cfg inp k t st4 = (r5, st5, ev5)"
        by (cases "main_selected_question w cfg inp k t st4")
      note f5 = main_selected_question_frame [OF s5]
      have b5: "base_services st5 = base_services st3" using f5 f4 by simp
      show ?thesis
      proof (cases r5)
        case (Some e)
        with mm ss \<open>r = Some kt\<close> kt s5 m have "st' = st5" "ev = ev3 @ ev5" by simp_all
        with f5 b5 b3 e3 i3 kv f4 show ?thesis by (auto split: option.splits)
      next
        case None
        obtain r6 st6 ev6 where s6: "main_user_input w cfg inp k t st5 = (r6, st6, ev6)"
          by (cases "main_user_input w cfg inp k t st5")
        note f6 = main_user_input_frame [OF s6]
        have "st' = st6 \<and> ev = ev3 @ ev5 @ ev6"
          using mm ss \<open>r = Some kt\<close> kt s5 None s6 m by (cases r6) simp_all
        with f5 f6 b5 b3 e3 i3 kv f4 show ?thesis by (auto split: option.splits)
      qed
    qed
  qed
  from both show "(case base_services st of
            Some svc \<Rightarrow> base_services st' = Some svc \<and> filter is_init ev = []
          | None \<Rightarrow> (base_services st' = None \<and> ev = []) \<or>
                    (base_services st' = Some svc0 \<and> filter is_init ev = [Initialized svc0]))"
    by simp
  from both show "\<forall>p q. Queried p q \<in> set ev \<longrightarrow>
           truthy (api_key (load_environment_config (getenv w) (load_config w))) \<and>
           (\<exists>svc. base_services st' = Some svc \<and> built_from svc p) \<and>
           retrieval (qp_config p) =
             \<lparr>top_k = slider 1 10 3 (top_k_slider inp),
              similarity_threshold = slider 0 1 (32 / 100) (threshold_slider inp)\<rparr>"
    unfolding cfg_def by simp
qed





lemma category_buttons_no_click:
  assumes "\<forall>q. \<not> click q"
  shows "category_buttons click cs st = (False, st)"
proof (induction cs)
  case Nil
  show ?case by simp
next
  case (Cons c cs)
  obtain category question_list where c: "c = (category, question_list)" by (cases c)
  have "question_buttons click question_list st = (False, st)"
    using assms by (induction question_list) simp_all
  with Cons c show ?case by simp
qed

lemma keyless_selected:
  assumes "\<not> truthy (api_key cfg)"
  shows "main_selected_question w cfg inp k t st = (None, st\<lparr>selected_question := None\<rparr>, [])"
  using assms by (cases "selected_question st") (simp_all add: main_selected_question_cases)

lemma keyless_input:
  assumes "\<not> truthy (api_key cfg)"
  shows "main_user_input w cfg inp k t st = (None, st, [])"
  using assms by (simp add: main_user_input_def split: option.splits)

lemma history_entries_init:
  "history_entries (if chat_history st = None then st\<lparr>chat_history := Some []\<rparr> else st)
     = history_entries st"
  by (simp add: history_entries_def)

lemma password_entered_base_services:
  "password_entered h xu xp st = Inr st' \<Longrightarrow> base_services st' = base_services st"
  by (auto simp: password_entered_def Let_def split: option.splits if_splits)

lemma session_step_inv:
  assumes "session_step w s st = (st', ev)"
  shows "session_inv w [s] st st' ev"
proof (cases s)
  case (Submit u p)
  with assms have "base_services st' = base_services st \<and> ev = []"
    by (auto simp: session_step_def Let_def split: sum.splits
             dest: password_entered_base_services)
  then show ?thesis by (simp add: session_inv_def split: option.splits)
next
  case (Run inp)
  obtain h where m: "main w inp st = (h, st', ev)"
    using assms Run by (cases "main w inp st") (simp add: session_step_def)
  from main_summary [OF m] Run show ?thesis
    unfolding session_inv_def by (auto split: option.splits)
qed

lemma session_inv_compose:
  assumes a: "session_inv w [s] st st1 ev1" and b: "session_inv w rest st1 st2 ev2"
  shows "session_inv w (s # rest) st st2 (ev1 @ ev2)"
proof -
  have q1: "\<forall>p q. Queried p q \<in> set ev1 \<longrightarrow>
        (\<exists>svc. base_services st2 = Some svc \<and> built_from svc p) \<and>
        (\<exists>inp. Run inp \<in> set (s # rest) \<and>
           retrieval (qp_config p) =
             \<lparr>top_k = slider 1 10 3 (top_k_slider inp),
              similarity_threshold = slider 0 1 (32 / 100) (threshold_slider inp)\<rparr>)"
  proof (intro allI impI)
    fix p q assume "Queried p q \<in> set ev1"
    with a obtain svc inp where s: "base_services st1 = Some svc" "built_from svc p"
      and i: "Run inp \<in> set [s]" "retrieval (qp_config p) =
             \<lparr>top_k = slider 1 10 3 (top_k_slider inp),
              similarity_threshold = slider 0 1 (32 / 100) (threshold_slider inp)\<rparr>"
      unfolding session_inv_def by blast
    from b s(1) have "base_services st2 = Some svc" by (simp add: session_inv_def)
    with s i show "(\<exists>svc. base_services st2 = Some svc \<and> built_from svc p) \<and>
        (\<exists>inp. Run inp \<in> set (s # rest) \<and>
           retrieval (qp_config p) =
             \<lparr>top_k = slider 1 10 3 (top_k_slider inp),
              similarity_threshold = slider 0 1 (32 / 100) (threshold_slider inp)\<rparr>)"
      by auto
  qed
  have q2: "\<forall>p q. Queried p q \<in> set ev2 \<longrightarrow>
        (\<exists>svc. base_services st2 = Some svc \<and> built_from svc p) \<and>
        (\<exists>inp. Run inp \<in> set (s # rest) \<and>
           retrieval (qp_config p) =
             \<lparr>top_k = slider 1 10 3 (top_k_slider inp),
              similarity_threshold = slider 0 1 (32 / 100) (threshold_slider inp)\<rparr>)"
    using b unfolding session_inv_def by (meson list.set_intros(2))
  have bs: "(case base_services st of
        Some svc \<Rightarrow> base_services st2 = Some svc \<and> filter is_init (ev1 @ ev2) = []
      | None \<Rightarrow>
          (base_services st2 = None \<and> filter is_init (ev1 @ ev2) = []) \<or>
          (base_services st2 =
             Some (initialize_services (load_config w)
                     (load_environment_config (getenv w) (load_config w))) \<and>
           filter is_init (ev1 @ ev2) =
             [Initialized (initialize_services (load_config w)
                (load_environment_config (getenv w) (load_config w)))]))"
    using a b unfolding session_inv_def by (auto split: option.splits)
  from bs q1 q2 show ?thesis unfolding session_inv_def by auto
qed

lemma session_run_inv:
  "session_run w steps st = (st', ev) \<Longrightarrow> session_inv w steps st st' ev"
proof (induction steps arbitrary: st st' ev)
  case Nil
  then show ?case by (simp add: session_inv_def split: option.splits)
next
  case (Cons s rest)
  obtain st1 ev1 where s1: "session_step w s st = (st1, ev1)" by (cases "session_step w s st")
  obtain st2 ev2 where s2: "session_run w rest st1 = (st2, ev2)" by (cases "session_run w rest st1")
  from Cons.prems s1 s2 have e: "st' = st2" "ev = ev1 @ ev2" by simp_all
  from session_inv_compose [OF session_step_inv [OF s1] Cons.IH [OF s2]] e show ?case by simp
qed


lemma slider_within:
  "lo \<le> d \<Longrightarrow> d \<le> hi \<Longrightarrow> lo \<le> slider lo hi d c \<and> slider lo hi d c \<le> hi"
  by (cases c) (simp_all add: slider_def)

lemma example_first_run:
  "main example_world example_inputs authenticated_state =
     (Completed, example_state\<lparr>chat_history := Some [\<lparr>user = ''hello'', bot = ''re: hello''\<rparr>]\<rparr>,
      [Initialized example_services,
       Marked ''RAG Processing Query'' 2, Queried (example_processor 5 (32 / 100)) ''hello'',
       Marked ''RAG Processing Query'' 3, Appended \<lparr>user = ''hello'', bot = ''re: hello''\<rparr>])"
  by (simp add: main_def Let_def check_authentication_def setup_sidebar_def
        category_buttons_no_click example_inputs_def main_selected_question_def
        main_user_input_def puq_cases truthy_def example_world_def example_state_def
        example_services_def example_processor_def authenticated_state_def fresh_state_def
        slider_def load_environment_config_def)

lemma example_second_run:
  "main example_world example_inputs
     (example_state\<lparr>chat_history := Some [\<lparr>user = ''hello'', bot = ''re: hello''\<rparr>]\<rparr>) =
     (Completed,
      example_state\<lparr>chat_history := Some [\<lparr>user = ''hello'', bot = ''re: hello''\<rparr>,
                                             \<lparr>user = ''hello'', bot = ''re: hello''\<rparr>]\<rparr>,
      [Marked ''RAG Processing Query'' 2, Queried (example_processor 5 (32 / 100)) ''hello'',
       Marked ''RAG Processing Query'' 3, Appended \<lparr>user = ''hello'', bot = ''re: hello''\<rparr>])"
  by (simp add: main_def Let_def check_authentication_def setup_sidebar_def
        category_buttons_no_click example_inputs_def main_selected_question_def
        main_user_input_def puq_cases truthy_def example_world_def example_state_def
        example_services_def example_processor_def slider_def load_environment_config_def)

lemma example_session:
  "session_run example_world [Run example_inputs, Run example_inputs] authenticated_state =
     (example_state\<lparr>chat_history := Some [\<lparr>user = ''hello'', bot = ''re: hello''\<rparr>,
                                             \<lparr>user = ''hello'', bot = ''re: hello''\<rparr>]\<rparr>,
      [Initialized example_services,
       Marked ''RAG Processing Query'' 2, Queried (example_processor 5 (32 / 100)) ''hello'',
       Marked ''RAG Processing Query'' 3, Appended \<lparr>user = ''hello'', bot = ''re: hello''\<rparr>,
       Marked ''RAG Processing Query'' 2, Queried (example_processor 5 (32 / 100)) ''hello'',
       Marked ''RAG Processing Query'' 3, Appended \<lparr>user = ''hello'', bot = ''re: hello''\<rparr>])"
  by (simp add: session_step_def example_first_run example_second_run)

lemma rescore_sound:
  "rescore q cs = Inr scs \<Longrightarrow> sc \<in> set scs \<Longrightarrow>
     chunk sc \<in> set cs \<and> score q (embedding (chunk sc)) = Inr (cosine sc) \<and> relevance sc = None"
  by (induction cs arbitrary: scs) (auto split: sum.splits)

lemma rerank_sound:
  assumes "rerank rr scored = Inr ranked" and "sc \<in> set ranked"
  shows "\<exists>sc0 \<in> set scored. chunk sc = chunk sc0 \<and> cosine sc = cosine sc0 \<and>
           (case rr of
              None \<Rightarrow> relevance sc = relevance sc0
            | Some (Inl e) \<Rightarrow> False
            | Some (Inr rel) \<Rightarrow> relevance sc = Some (rel (chunk sc)))"
  using assms
  by (fastforce simp: rerank_def set_sort_desc split: option.splits sum.splits)

lemma sorted_wrt_cong_set:
  assumes "sorted_wrt (\<lambda>x y. f y \<le> f x) xs" and "\<forall>x \<in> set xs. f x = g x"
  shows "sorted_wrt (\<lambda>x y. g y \<le> (g x :: real)) xs"
  using assms by (induction xs) auto

lemma example_retrieve_plain:
  "retrieve example_store None [1, 0] \<lparr>top_k = 2, similarity_threshold = 1 / 2\<rparr>
   = Inr [\<lparr>chunk = \<lparr>chunk_id = ''b'', source_text = ''beta'', embedding = [1, 0]\<rparr>,
           cosine = Num 1, relevance = None\<rparr>,
          \<lparr>chunk = \<lparr>chunk_id = ''c'', source_text = ''gamma'', embedding = [3, 4]\<rparr>,
           cosine = Num (3 / 5), relevance = None\<rparr>]"
  by (simp add: retrieve_def example_store_def score_def euclidean_norm_def dot_def rerank_def
        sort_desc_def fdiv_def final_score_def)

lemma example_retrieve_reranked:
  "retrieve example_store (Some (Inr example_relevance)) [1, 0]
     \<lparr>top_k = 2, similarity_threshold = 1 / 2\<rparr>
   = Inr [\<lparr>chunk = \<lparr>chunk_id = ''c'', source_text = ''gamma'', embedding = [3, 4]\<rparr>,
           cosine = Num (3 / 5), relevance = Some 2\<rparr>,
          \<lparr>chunk = \<lparr>chunk_id = ''b'', source_text = ''beta'', embedding = [1, 0]\<rparr>,
           cosine = Num 1, relevance = Some 1\<rparr>]"
  by (simp add: retrieve_def example_store_def score_def euclidean_norm_def dot_def rerank_def
        sort_desc_def fdiv_def final_score_def example_relevance_def)


lemma padded_digest_length: "length (padded_digest s) = 64"
  by (simp add: padded_digest_def)

section \<open>The claims\<close>

text \<open>
  Claim C1. Whenever \<open>RetrievalService.retrieve\<close> returns, under a configuration with a
  positive \<open>top_k\<close>, the sequence returned has at most \<open>top_k\<close> chunks; every chunk in it
  is a candidate the vector store gave for the query, and its cosine score is the score
  of the query vector against its embedding, a number not below the similarity threshold;
  and the chunks are in descending order of the score they are ranked by. With a reranker
  that score is the reranker's relevance of the chunk; without one it is the cosine score.
\<close>

theorem retrieve_bounded_filtered_ranked:
  assumes "retrieve nearest rr q cfg = Inr out" and "0 < top_k cfg"
  shows "int (length out) \<le> top_k cfg \<and>
         (\<exists>cands. nearest q = Inr cands \<and> (\<forall>sc \<in> set out. chunk sc \<in> set cands)) \<and>
         (\<forall>sc \<in> set out. \<exists>r. score q (embedding (chunk sc)) = Inr (Num r) \<and>
            cosine sc = Num r \<and> similarity_threshold cfg \<le> r) \<and>
         sorted_wrt (\<lambda>x y. final_score y \<le> final_score x) out \<and>
         (case rr of
            None \<Rightarrow>
              (\<forall>sc \<in> set out. relevance sc = None) \<and>
              sorted_wrt (\<lambda>x y. fl_val (cosine y) \<le> fl_val (cosine x)) out
          | Some (Inl e) \<Rightarrow> False
          | Some (Inr rel) \<Rightarrow>
              (\<forall>sc \<in> set out. relevance sc = Some (rel (chunk sc))) \<and>
              sorted_wrt (\<lambda>x y. rel (chunk y) \<le> rel (chunk x)) out)"
proof -
  from assms(1) obtain cands scored ranked where
    nq: "nearest q = Inr cands" and
    sc: "rescore q cands = Inr scored" and rk: "rerank rr scored = Inr ranked" and
    out: "out = take (nat (top_k cfg)) (sort_desc final_score
            (filter (\<lambda>sc. fl_ge (cosine sc) (similarity_threshold cfg)) ranked))"
    by (auto simp: retrieve_def split: sum.splits)
  have len: "int (length out) \<le> top_k cfg" using assms(2) by (simp add: out)
  have sub: "set out \<subseteq> set ranked \<inter> {sc. fl_ge (cosine sc) (similarity_threshold cfg)}"
    unfolding out using set_take_subset [of "nat (top_k cfg)"] by (fastforce simp: set_sort_desc)
  have link: "chunk sc \<in> set cands \<and> score q (embedding (chunk sc)) = Inr (cosine sc) \<and>
              fl_ge (cosine sc) (similarity_threshold cfg) \<and>
              (case rr of
                 None \<Rightarrow> relevance sc = None
               | Some (Inl e) \<Rightarrow> False
               | Some (Inr rel) \<Rightarrow> relevance sc = Some (rel (chunk sc)))"
    if "sc \<in> set out" for sc
  proof -
    from that sub have r: "sc \<in> set ranked" and g: "fl_ge (cosine sc) (similarity_threshold cfg)"
      by auto
    from rerank_sound [OF rk r] obtain sc0 where s0: "sc0 \<in> set scored"
      and e: "chunk sc = chunk sc0" "cosine sc = cosine sc0"
      and c: "(case rr of
              None \<Rightarrow> relevance sc = relevance sc0
            | Some (Inl e) \<Rightarrow> False
            | Some (Inr rel) \<Rightarrow> relevance sc = Some (rel (chunk sc)))"
      by blast
    from rescore_sound [OF sc s0] e c g show ?thesis
      by (auto split: option.splits sum.splits)
  qed
  have cand: "\<exists>cands. nearest q = Inr cands \<and> (\<forall>sc \<in> set out. chunk sc \<in> set cands)"
    using nq link by blast
  have thr: "\<forall>sc \<in> set out. \<exists>r. score q (embedding (chunk sc)) = Inr (Num r) \<and>
            cosine sc = Num r \<and> similarity_threshold cfg \<le> r"
  proof
    fix sc assume "sc \<in> set out"
    from link [OF this] show "\<exists>r. score q (embedding (chunk sc)) = Inr (Num r) \<and>
            cosine sc = Num r \<and> similarity_threshold cfg \<le> r"
      by (cases "cosine sc") simp_all
  qed
  have srt: "sorted_wrt (\<lambda>x y. final_score y \<le> final_score x) out"
    unfolding out by (rule sorted_wrt_take) (rule sorted_wrt_sort_desc)
  have ord: "(case rr of
            None \<Rightarrow>
              (\<forall>sc \<in> set out. relevance sc = None) \<and>
              sorted_wrt (\<lambda>x y. fl_val (cosine y) \<le> fl_val (cosine x)) out
          | Some (Inl e) \<Rightarrow> False
          | Some (Inr rel) \<Rightarrow>
              (\<forall>sc \<in> set out. relevance sc = Some (rel (chunk sc))) \<and>
              sorted_wrt (\<lambda>x y. rel (chunk y) \<le> rel (chunk x)) out)"
  proof (cases rr)
    case None
    with link have n: "\<forall>sc \<in> set out. relevance sc = None" by auto
    then have "\<forall>sc \<in> set out. final_score sc = fl_val (cosine sc)"
      by (simp add: final_score_def)
    from sorted_wrt_cong_set [OF srt this] n None show ?thesis by simp
  next
    case (Some r)
    show ?thesis
    proof (cases r)
      case (Inl e)
      with Some rk show ?thesis by (simp add: rerank_def)
    next
      case (Inr rel)
      with Some link have n: "\<forall>sc \<in> set out. relevance sc = Some (rel (chunk sc))" by auto
      then have "\<forall>sc \<in> set out. final_score sc = rel (chunk sc)"
        by (simp add: final_score_def)
      from sorted_wrt_cong_set [OF srt this] n Some Inr show ?thesis by simp
    qed
  qed
  from len cand thr srt ord show ?thesis by blast
qed

theorem retrieve_bounded_filtered_ranked_witness:
  "retrieve example_store None [1, 0] \<lparr>top_k = 2, similarity_threshold = 1 / 2\<rparr>
   = Inr [\<lparr>chunk = \<lparr>chunk_id = ''b'', source_text = ''beta'', embedding = [1, 0]\<rparr>,
           cosine = Num 1, relevance = None\<rparr>,
          \<lparr>chunk = \<lparr>chunk_id = ''c'', source_text = ''gamma'', embedding = [3, 4]\<rparr>,
           cosine = Num (3 / 5), relevance = None\<rparr>] \<and>
   retrieve example_store (Some (Inr example_relevance)) [1, 0]
     \<lparr>top_k = 2, similarity_threshold = 1 / 2\<rparr>
   = Inr [\<lparr>chunk = \<lparr>chunk_id = ''c'', source_text = ''gamma'', embedding = [3, 4]\<rparr>,
           cosine = Num (3 / 5), relevance = Some 2\<rparr>,
          \<lparr>chunk = \<lparr>chunk_id = ''b'', source_text = ''beta'', embedding = [1, 0]\<rparr>,
           cosine = Num 1, relevance = Some 1\<rparr>] \<and>
   (0::int) < 2 \<and>
   score [1, 0] [3, 4] = Inr (Num (3 / 5)) \<and> score [1, 0] [1, 0] = Inr (Num 1)"
proof -
  have h2: "0 < top_k \<lparr>top_k = 2, similarity_threshold = 1 / 2\<rparr>" by simp
  note a = retrieve_bounded_filtered_ranked [OF example_retrieve_plain h2]
  note b = retrieve_bounded_filtered_ranked [OF example_retrieve_reranked h2]
  from a have s1: "score [1, 0] [3, 4] = Inr (Num (3 / 5))" by auto
  from b have s2: "score [1, 0] [1, 0] = Inr (Num 1)" by auto
  from example_retrieve_plain example_retrieve_reranked s1 s2 show ?thesis by simp
qed

text \<open>
  Claim C2. For vectors of equal length of which at least one has Euclidean norm zero,
  \<open>score\<close> returns exactly 0.0, and not NaN.
\<close>
theorem score_zero_norm:
  assumes "length a = length b" and "euclidean_norm a = 0 \<or> euclidean_norm b = 0"
  shows "score a b = Inr (Num 0) \<and> score a b \<noteq> Inr NaN"
  using assms by (simp add: score_def)

theorem score_zero_norm_witness:
  "length [0, 0 :: real] = length [1, 2 :: real] \<and>
   (euclidean_norm [0, 0] = 0 \<or> euclidean_norm [1, 2] = 0) \<and>
   score [0, 0] [1, 2] = Inr (Num 0) \<and>
   fdiv (dot [0, 0] [1, 2]) (euclidean_norm [0, 0] * euclidean_norm [1, 2]) = NaN"
proof -
  have h1: "length [0, 0 :: real] = length [1, 2 :: real]" by simp
  have h2: "euclidean_norm [0, 0] = 0 \<or> euclidean_norm [1, 2] = 0"
    by (simp add: euclidean_norm_def dot_def)
  have h3: "fdiv (dot [0, 0] [1, 2]) (euclidean_norm [0, 0] * euclidean_norm [1, 2]) = NaN"
    by (simp add: fdiv_def euclidean_norm_def dot_def)
  from score_zero_norm [OF h1 h2] h1 h2 h3 show ?thesis by simp
qed



text \<open>
  Claim C3, as stated, fails: when \<open>process_query\<close> raises, \<open>process_user_query\<close> has
  invoked it once and appends no entry to the chat history.
\<close>

theorem process_user_query_one_entry_counterexample:
  "fst (process_user_query failing_pipeline (0, 1) ''hi'' 3 (32 / 100) example_state)
     = Some GenerationError \<and>
   length (filter is_query
     (snd (snd (process_user_query failing_pipeline (0, 1) ''hi'' 3 (32 / 100) example_state)))) = 1 \<and>
   history_entries
     (fst (snd (process_user_query failing_pipeline (0, 1) ''hi'' 3 (32 / 100) example_state)))
     = history_entries example_state \<and>
   length (history_entries
     (fst (snd (process_user_query failing_pipeline (0, 1) ''hi'' 3 (32 / 100) example_state))))
     \<noteq> length (history_entries example_state) + 1"
  by (simp add: puq_cases example_state_def failing_pipeline_def history_entries_def)

text \<open>
  Claim C3, amended. In a session state that holds the services and a chat history,
  \<open>process_user_query\<close> invokes \<open>process_query\<close> exactly once. When that call returns a
  response, exactly one entry, made of the question and that response, is appended to the
  chat history, after the call and the second mark, and nothing else in the session state
  changes. When the call raises, the exception leaves \<open>process_user_query\<close> and the session
  state is unchanged. The pipeline writes no entry itself: the only append is the caller's.
\<close>

theorem process_user_query_one_query_one_entry:
  assumes "base_services st = Some svc" and "chat_history st = Some h"
  shows "let p = QueryProcessor (embedding_service svc) (retrieval_service svc) (augmenter svc)
                   (generation_service svc) \<lparr>retrieval = \<lparr>top_k = k, similarity_threshold = t\<rparr>\<rparr>
         in (case pq p q of
              Inr response \<Rightarrow>
                process_user_query pq ticks q k t st =
                  (None, st\<lparr>chat_history := Some (h @ [\<lparr>user = q, bot = response\<rparr>])\<rparr>,
                   [Marked ''RAG Processing Query'' (fst ticks), Queried p q,
                    Marked ''RAG Processing Query'' (snd ticks),
                    Appended \<lparr>user = q, bot = response\<rparr>])
            | Inl e \<Rightarrow>
                process_user_query pq ticks q k t st =
                  (Some e, st, [Marked ''RAG Processing Query'' (fst ticks), Queried p q])) \<and>
           length (filter is_query (snd (snd (process_user_query pq ticks q k t st)))) = 1 \<and>
           length (filter is_append (snd (snd (process_user_query pq ticks q k t st)))) \<le> 1"
  using assms
  by (auto simp: puq_cases Let_def split: sum.splits)

theorem process_user_query_one_query_one_entry_witness:
  "base_services example_state = Some example_services \<and> chat_history example_state = Some [] \<and>
   process_user_query (process_query example_world) (0, 1) ''hi'' 3 (32 / 100) example_state =
     (None, example_state\<lparr>chat_history := Some [\<lparr>user = ''hi'', bot = ''re: hi''\<rparr>]\<rparr>,
      [Marked ''RAG Processing Query'' 0,
       Queried (QueryProcessor (embedding_service example_services)
                 (retrieval_service example_services) (augmenter example_services)
                 (generation_service example_services)
                 \<lparr>retrieval = \<lparr>top_k = 3, similarity_threshold = 32 / 100\<rparr>\<rparr>) ''hi'',
       Marked ''RAG Processing Query'' 1,
       Appended \<lparr>user = ''hi'', bot = ''re: hi''\<rparr>])"
proof -
  have h1: "base_services example_state = Some example_services" by (simp add: example_state_def)
  have h2: "chat_history example_state = Some []" by (simp add: example_state_def)
  from process_user_query_one_query_one_entry [OF h1 h2,
         where pq = "process_query example_world" and q = "''hi''" and ticks = "(0, 1)"
           and k = 3 and t = "32 / 100"]
  show ?thesis using h1 h2 by (simp add: Let_def example_world_def)
qed

text \<open>
  Claim C6. The two marks are purely observational: for every pipeline, question,
  configuration and session state, \<open>process_user_query\<close> raises or returns as it would
  with the two \<open>pt.mark\<close> lines removed, leaves the same session state (so the same chat
  history entry), and does the same things in the same order apart from the marks; and
  none of this depends on the clock readings the marks take.
\<close>

theorem marks_are_observational:
  "fst (process_user_query pq ticks q k t st) = fst (process_user_query_unmarked pq q k t st) \<and>
   fst (snd (process_user_query pq ticks q k t st)) =
     fst (snd (process_user_query_unmarked pq q k t st)) \<and>
   without_marks (snd (snd (process_user_query pq ticks q k t st))) =
     snd (snd (process_user_query_unmarked pq q k t st)) \<and>
   fst (process_user_query pq ticks' q k t st) = fst (process_user_query pq ticks q k t st) \<and>
   fst (snd (process_user_query pq ticks' q k t st)) =
     fst (snd (process_user_query pq ticks q k t st))"
  by (simp add: process_user_query_def process_user_query_unmarked_def mark_def Let_def
        without_marks_def split: option.splits sum.splits)

theorem marks_are_observational_witness:
  "fst (snd (process_user_query (process_query example_world) (0, 1) ''hi'' 3 (32 / 100) example_state))
     = example_state\<lparr>chat_history := Some [\<lparr>user = ''hi'', bot = ''re: hi''\<rparr>]\<rparr> \<and>
   fst (snd (process_user_query_unmarked (process_query example_world) ''hi'' 3 (32 / 100) example_state))
     = example_state\<lparr>chat_history := Some [\<lparr>user = ''hi'', bot = ''re: hi''\<rparr>]\<rparr> \<and>
   without_marks
     (snd (snd (process_user_query (process_query example_world) (0, 1) ''hi'' 3 (32 / 100) example_state)))
     = snd (snd (process_user_query_unmarked (process_query example_world) ''hi'' 3 (32 / 100) example_state))"
  using marks_are_observational [of "process_query example_world" "(0, 1)" "''hi''" 3 "32 / 100"
          example_state "(0, 1)"]
  by (simp add: process_user_query_unmarked_def example_state_def example_world_def Let_def)



text \<open>
  Claim C7. Every call of \<open>process_user_query\<close> builds its configuration from the
  \<open>top_k\<close> and threshold it is called with and its processor from that configuration
  and the cached services, and it writes nothing to the session state but the chat
  history. So in two successive calls the second one's processor carries the second
  call's values only, and what the second call does depends on the session state only
  through the cached services and the chat history.
\<close>
theorem process_user_query_fresh_per_call:
  assumes one: "process_user_query pq ticks1 q1 k1 t1 st = (r1, st1, ev1)"
      and two: "process_user_query pq ticks2 q2 k2 t2 st1 = (r2, st2, ev2)"
  shows "st1 = st\<lparr>chat_history := chat_history st1\<rparr> \<and>
         st2 = st\<lparr>chat_history := chat_history st2\<rparr> \<and>
         (\<forall>p q. Queried p q \<in> set ev1 \<longrightarrow>
            qp_config p = \<lparr>retrieval = \<lparr>top_k = k1, similarity_threshold = t1\<rparr>\<rparr> \<and>
            (\<exists>svc. base_services st = Some svc \<and> built_from svc p)) \<and>
         (\<forall>p q. Queried p q \<in> set ev2 \<longrightarrow>
            qp_config p = \<lparr>retrieval = \<lparr>top_k = k2, similarity_threshold = t2\<rparr>\<rparr> \<and>
            (\<exists>svc. base_services st = Some svc \<and> built_from svc p)) \<and>
         (\<forall>other. base_services other = base_services st1 \<and> chat_history other = chat_history st1 \<longrightarrow>
            fst (process_user_query pq ticks2 q2 k2 t2 other) = r2 \<and>
            chat_history (fst (snd (process_user_query pq ticks2 q2 k2 t2 other))) = chat_history st2 \<and>
            snd (snd (process_user_query pq ticks2 q2 k2 t2 other)) = ev2)"
proof -
  have f1: "st1 = st\<lparr>chat_history := chat_history st1\<rparr>" by (rule puq_frame [OF one])
  have f2: "st2 = st1\<lparr>chat_history := chat_history st2\<rparr>" by (rule puq_frame [OF two])
  have f2': "st2 = st\<lparr>chat_history := chat_history st2\<rparr>"
    by (subst f2, subst f1) simp
  have b1: "base_services st1 = base_services st" using puq_base_services [OF one] by simp
  have e1: "\<forall>p q. Queried p q \<in> set ev1 \<longrightarrow>
            qp_config p = \<lparr>retrieval = \<lparr>top_k = k1, similarity_threshold = t1\<rparr>\<rparr> \<and>
            (\<exists>svc. base_services st = Some svc \<and> built_from svc p)"
    using puq_events [OF one] by fastforce
  have e2: "\<forall>p q. Queried p q \<in> set ev2 \<longrightarrow>
            qp_config p = \<lparr>retrieval = \<lparr>top_k = k2, similarity_threshold = t2\<rparr>\<rparr> \<and>
            (\<exists>svc. base_services st = Some svc \<and> built_from svc p)"
    using puq_events [OF two] b1 by fastforce
  have ind: "\<forall>other. base_services other = base_services st1 \<and> chat_history other = chat_history st1 \<longrightarrow>
            fst (process_user_query pq ticks2 q2 k2 t2 other) = r2 \<and>
            chat_history (fst (snd (process_user_query pq ticks2 q2 k2 t2 other))) = chat_history st2 \<and>
            snd (snd (process_user_query pq ticks2 q2 k2 t2 other)) = ev2"
    using two by (auto simp: puq_cases Let_def split: option.splits sum.splits)
  from f1 f2' e1 e2 ind show ?thesis by blast
qed



theorem process_user_query_fresh_per_call_witness:
  "process_user_query (process_query example_world) (0, 1) ''hi'' 3 (32 / 100) example_state =
     (None, example_state\<lparr>chat_history := Some [\<lparr>user = ''hi'', bot = ''re: hi''\<rparr>]\<rparr>,
      [Marked ''RAG Processing Query'' 0, Queried (example_processor 3 (32 / 100)) ''hi'',
       Marked ''RAG Processing Query'' 1, Appended \<lparr>user = ''hi'', bot = ''re: hi''\<rparr>]) \<and>
   process_user_query (process_query example_world) (2, 3) ''yo'' 5 (1 / 2)
       (example_state\<lparr>chat_history := Some [\<lparr>user = ''hi'', bot = ''re: hi''\<rparr>]\<rparr>) =
     (None, example_state\<lparr>chat_history := Some [\<lparr>user = ''hi'', bot = ''re: hi''\<rparr>,
                                                  \<lparr>user = ''yo'', bot = ''re: yo''\<rparr>]\<rparr>,
      [Marked ''RAG Processing Query'' 2, Queried (example_processor 5 (1 / 2)) ''yo'',
       Marked ''RAG Processing Query'' 3, Appended \<lparr>user = ''yo'', bot = ''re: yo''\<rparr>]) \<and>
   qp_config (example_processor 5 (1 / 2)) = \<lparr>retrieval = \<lparr>top_k = 5, similarity_threshold = 1 / 2\<rparr>\<rparr> \<and>
   built_from example_services (example_processor 5 (1 / 2))"
proof -
  have h1: "process_user_query (process_query example_world) (0, 1) ''hi'' 3 (32 / 100) example_state =
     (None, example_state\<lparr>chat_history := Some [\<lparr>user = ''hi'', bot = ''re: hi''\<rparr>]\<rparr>,
      [Marked ''RAG Processing Query'' 0, Queried (example_processor 3 (32 / 100)) ''hi'',
       Marked ''RAG Processing Query'' 1, Appended \<lparr>user = ''hi'', bot = ''re: hi''\<rparr>])"
    by (simp add: puq_cases example_state_def example_world_def example_processor_def Let_def)
  have h2: "process_user_query (process_query example_world) (2, 3) ''yo'' 5 (1 / 2)
       (example_state\<lparr>chat_history := Some [\<lparr>user = ''hi'', bot = ''re: hi''\<rparr>]\<rparr>) =
     (None, example_state\<lparr>chat_history := Some [\<lparr>user = ''hi'', bot = ''re: hi''\<rparr>,
                                                  \<lparr>user = ''yo'', bot = ''re: yo''\<rparr>]\<rparr>,
      [Marked ''RAG Processing Query'' 2, Queried (example_processor 5 (1 / 2)) ''yo'',
       Marked ''RAG Processing Query'' 3, Appended \<lparr>user = ''yo'', bot = ''re: yo''\<rparr>])"
    by (simp add: puq_cases example_state_def example_world_def example_processor_def Let_def)
  have b: "base_services example_state = Some example_services" by (simp add: example_state_def)
  from process_user_query_fresh_per_call [OF h1 h2] b h1 h2 show ?thesis by auto
qed




text \<open>
  Claim C10. When the callback finds the digests equal it sets \<open>password_correct\<close> to
  true and deletes the key \<open>password\<close> from the session state; when it finds them
  different it sets \<open>password_correct\<close> to false and the entered password stays in the
  session state.
\<close>
theorem password_removed_only_on_success:
  assumes "username st = Some eu" and "password st = Some ep"
  shows "\<exists>st'. password_entered sha256 (Some xu) (Some xp) st = Inr st' \<and>
           (password_correct st' = Some True \<and> password st' = None \<and>
              sha256 (eu @ ep) = sha256 (xu @ xp)
            \<or> password_correct st' = Some False \<and> password st' = Some ep \<and>
              sha256 (eu @ ep) \<noteq> sha256 (xu @ xp))"
  using assms by (simp add: password_entered_def Let_def)

theorem password_removed_only_on_success_witness:
  "password_entered (sha256_hexdigest example_world) (Some ''a'') (Some ''bc'')
     (fresh_state\<lparr>username := Some ''a'', password := Some ''bc''\<rparr>)
     = Inr (fresh_state\<lparr>username := Some ''a'', password := None, password_correct := Some True\<rparr>) \<and>
   password_entered (sha256_hexdigest example_world) (Some ''a'') (Some ''bc'')
     (fresh_state\<lparr>username := Some ''a'', password := Some ''xy''\<rparr>)
     = Inr (fresh_state\<lparr>username := Some ''a'', password := Some ''xy'', password_correct := Some False\<rparr>)"
proof -
  have u1: "username (fresh_state\<lparr>username := Some ''a'', password := Some ''bc''\<rparr>) = Some ''a''" by simp
  have p1: "password (fresh_state\<lparr>username := Some ''a'', password := Some ''bc''\<rparr>) = Some ''bc''" by simp
  have u2: "username (fresh_state\<lparr>username := Some ''a'', password := Some ''xy''\<rparr>) = Some ''a''" by simp
  have p2: "password (fresh_state\<lparr>username := Some ''a'', password := Some ''xy''\<rparr>) = Some ''xy''" by simp
  from password_removed_only_on_success [OF u1 p1, of "sha256_hexdigest example_world" "''a''" "''bc''"]
       password_removed_only_on_success [OF u2 p2, of "sha256_hexdigest example_world" "''a''" "''bc''"]
  show ?thesis by (simp add: password_entered_def example_world_def fresh_state_def)
qed



text \<open>
  Claim C9. When \<open>OPENAI_API_KEY\<close> is unset or empty, a run of \<open>main\<close> never invokes
  the pipeline and appends nothing to the chat history, whose entries stay as they were;
  the run raises no exception; when it reaches the end of the script the key
  \<open>selected_question\<close> is gone from the session state; and it does reach the end whenever
  authentication lets it through and no question button reports a click.
\<close>

theorem no_api_key_no_query:
  fixes w :: world
  assumes key: "\<not> truthy (getenv w ''OPENAI_API_KEY'')"
  shows "case main w inp st of (s, st', ev) \<Rightarrow>
           filter is_query ev = [] \<and> filter is_append ev = [] \<and>
           history_entries st' = history_entries st \<and>
           (\<forall>e. s \<noteq> Raised e) \<and>
           (s = Completed \<longrightarrow> selected_question st' = None) \<and>
           (fst (check_authentication st) = None \<and> (\<forall>q. \<not> clicked inp q) \<longrightarrow> s = Completed)"
proof -
  define cfg where "cfg = load_environment_config (getenv w) (load_config w)"
  have k: "\<not> truthy (api_key cfg)" using key by (simp add: cfg_def load_environment_config_def)
  obtain a st1 where ca: "check_authentication st = (a, st1)"
    by (cases "check_authentication st")
  note f1 = check_authentication_frame [OF ca]
  have h1: "history_entries st1 = history_entries st" using f1 by (simp add: history_entries_def)
  show ?thesis
  proof (cases a)
    case (Some h)
    have "h = Stopped" using ca Some
      by (auto simp: check_authentication_def split: option.splits if_splits)
    with main_halted [of st h st1 w inp] ca Some h1 show ?thesis by simp
  next
    case None
    define st2 where "st2 = (if chat_history st1 = None then st1\<lparr>chat_history := Some []\<rparr> else st1)"
    define svc where "svc = initialize_services (load_config w) cfg"
    define st3 where "st3 = (if base_services st2 = None then st2\<lparr>base_services := Some svc\<rparr> else st2)"
    define ev3 where "ev3 = (if base_services st2 = None then [Initialized svc] else [])"
    have h2: "history_entries st2 = history_entries st"
      unfolding st2_def using h1 by (simp only: history_entries_init)
    have h3: "history_entries st3 = history_entries st"
      using h2 by (simp add: st3_def history_entries_def)
    have e3: "filter is_query ev3 = []" "filter is_append ev3 = []" by (simp_all add: ev3_def)
    have mm: "main w inp st =
     (case setup_sidebar inp st3 of
        (None, st4) \<Rightarrow> (Rerun, st4, ev3)
      | (Some (k, t), st4) \<Rightarrow>
          (case main_selected_question w cfg inp k t st4 of
             (Some e, st5, ev5) \<Rightarrow> (Raised e, st5, ev3 @ ev5)
           | (None, st5, ev5) \<Rightarrow>
               (case main_user_input w cfg inp k t st5 of
                  (Some e, st6, ev6) \<Rightarrow> (Raised e, st6, ev3 @ ev5 @ ev6)
                | (None, st6, ev6) \<Rightarrow> (Completed, st6, ev3 @ ev5 @ ev6))))"
      using main_continues [of st st1 w inp] ca None
      unfolding cfg_def st2_def st3_def ev3_def svc_def by simp
    obtain r st4 where ss: "setup_sidebar inp st3 = (r, st4)" by (cases "setup_sidebar inp st3")
    note f4 = setup_sidebar_frame [OF ss]
    have h4: "history_entries st4 = history_entries st"
      using f4 h3 by (simp add: history_entries_def)
    show ?thesis
    proof (cases r)
      case None
      have "\<exists>q. clicked inp q"
      proof (rule ccontr)
        assume "\<not> (\<exists>q. clicked inp q)"
        then have "category_buttons (clicked inp) questions st3 = (False, st3)"
          by (intro category_buttons_no_click) simp
        with ss None show False by (simp add: setup_sidebar_def Let_def)
      qed
      moreover have "main w inp st = (Rerun, st4, ev3)" using mm ss None by simp
      ultimately show ?thesis using h4 e3 by auto
    next
      case (Some kt)
      obtain k' t' where kt: "kt = (k', t')" by (cases kt)
      have "main w inp st = (Completed, st4\<lparr>selected_question := None\<rparr>, ev3)"
        using mm ss Some kt keyless_selected [OF k] keyless_input [OF k] by simp
      moreover have "history_entries (st4\<lparr>selected_question := None\<rparr>) = history_entries st"
        using h4 by (simp add: history_entries_def)
      ultimately show ?thesis using e3 by simp
    qed
  qed
qed

theorem no_api_key_no_query_witness:
  "\<not> truthy (getenv keyless_world ''OPENAI_API_KEY'') \<and>
   main keyless_world example_inputs (example_state\<lparr>selected_question := Some ''why?''\<rparr>)
     = (Completed, example_state, [])"
proof -
  have h: "\<not> truthy (getenv keyless_world ''OPENAI_API_KEY'')"
    by (simp add: keyless_world_def truthy_def)
  have m: "main keyless_world example_inputs (example_state\<lparr>selected_question := Some ''why?''\<rparr>)
     = (Completed, example_state, [])"
    by (simp add: main_def Let_def check_authentication_def example_state_def setup_sidebar_def
          category_buttons_no_click example_inputs_def main_selected_question_def
          main_user_input_def load_environment_config_def keyless_world_def example_world_def
          truthy_def)
  from no_api_key_no_query [OF h, where inp = example_inputs
         and st = "example_state\<lparr>selected_question := Some ''why?''\<rparr>"]
       h m show ?thesis by simp
qed


text \<open>
  Claim C5. In every session, whatever its steps, \<open>initialize_services\<close> runs at most
  once, and only in a run that finds \<open>base_services\<close> absent; the services it builds,
  with the augmenter made from the template \<open>rag_prompt.md\<close>, are stored in the session
  state; services once stored stay the same to the end of the session; and every query of
  the session is made on a processor that holds those stored services.
\<close>

theorem services_initialized_once:
  assumes "session_run w steps st = (st', ev)"
  shows "length (filter is_init ev) \<le> 1 \<and>
         (\<forall>svc. Initialized svc \<in> set ev \<longrightarrow>
            base_services st = None \<and> base_services st' = Some svc \<and>
            augmenter svc = PromptAugmenter ''rag_prompt.md'') \<and>
         (\<forall>svc. base_services st = Some svc \<longrightarrow>
            base_services st' = Some svc \<and> filter is_init ev = []) \<and>
         (\<forall>p q. Queried p q \<in> set ev \<longrightarrow>
            (\<exists>svc. base_services st' = Some svc \<and> built_from svc p))"
proof -
  note inv = session_run_inv [OF assms]
  let ?svc0 = "initialize_services (load_config w)
                 (load_environment_config (getenv w) (load_config w))"
  have aug: "augmenter ?svc0 = PromptAugmenter ''rag_prompt.md''"
    by (simp add: initialize_services_def Let_def)
  have one: "length (filter is_init ev) \<le> 1"
    using inv unfolding session_inv_def by (auto split: option.splits)
  have ini: "\<forall>svc. Initialized svc \<in> set ev \<longrightarrow>
            base_services st = None \<and> base_services st' = Some svc \<and>
            augmenter svc = PromptAugmenter ''rag_prompt.md''"
  proof (intro allI impI)
    fix svc assume "Initialized svc \<in> set ev"
    then have m: "Initialized svc \<in> set (filter is_init ev)" by simp
    have ne: "filter is_init ev \<noteq> []"
    proof
      assume e: "filter is_init ev = []"
      from m show False unfolding e by simp
    qed
    with inv have n: "base_services st = None" and
       s: "base_services st' = Some ?svc0" and f: "filter is_init ev = [Initialized ?svc0]"
      unfolding session_inv_def by (auto split: option.splits)
    from m f have "svc = ?svc0" by simp
    with n s aug show "base_services st = None \<and> base_services st' = Some svc \<and>
            augmenter svc = PromptAugmenter ''rag_prompt.md''" by simp
  qed
  have keep: "\<forall>svc. base_services st = Some svc \<longrightarrow>
            base_services st' = Some svc \<and> filter is_init ev = []"
    using inv unfolding session_inv_def by (auto split: option.splits)
  have use: "\<forall>p q. Queried p q \<in> set ev \<longrightarrow>
            (\<exists>svc. base_services st' = Some svc \<and> built_from svc p)"
    using inv unfolding session_inv_def by blast
  from one ini keep use show ?thesis by blast
qed

theorem services_initialized_once_witness:
  "session_run example_world [Run example_inputs, Run example_inputs] authenticated_state =
     (example_state\<lparr>chat_history := Some [\<lparr>user = ''hello'', bot = ''re: hello''\<rparr>,
                                             \<lparr>user = ''hello'', bot = ''re: hello''\<rparr>]\<rparr>,
      [Initialized example_services,
       Marked ''RAG Processing Query'' 2, Queried (example_processor 5 (32 / 100)) ''hello'',
       Marked ''RAG Processing Query'' 3, Appended \<lparr>user = ''hello'', bot = ''re: hello''\<rparr>,
       Marked ''RAG Processing Query'' 2, Queried (example_processor 5 (32 / 100)) ''hello'',
       Marked ''RAG Processing Query'' 3, Appended \<lparr>user = ''hello'', bot = ''re: hello''\<rparr>]) \<and>
   base_services authenticated_state = None \<and>
   augmenter example_services = PromptAugmenter ''rag_prompt.md'' \<and>
   built_from example_services (example_processor 5 (32 / 100))"
proof -
  note t = services_initialized_once [OF example_session]
  have s: "base_services (example_state\<lparr>chat_history :=
        Some [\<lparr>user = ''hello'', bot = ''re: hello''\<rparr>, \<lparr>user = ''hello'', bot = ''re: hello''\<rparr>]\<rparr>)
        = Some example_services"
    by (simp add: example_state_def)
  from t have a: "base_services authenticated_state = None \<and>
      augmenter example_services = PromptAugmenter ''rag_prompt.md''"
    by simp
  from t s have b: "built_from example_services (example_processor 5 (32 / 100))"
    by auto
  from example_session a b show ?thesis by blast
qed

text \<open>
  Claim C4. In every session, every query is made with a retrieval configuration whose
  \<open>top_k\<close> and threshold are what the two sliders returned in some run of the script:
  the slider calls of \<open>setup_sidebar\<close> bound \<open>top_k\<close> to the integers from 1 to 10, with
  3 while the slider was never moved, and the threshold to the range from 0.0 to 1.0, with
  0.32 while the slider was never moved. So \<open>top_k > 0\<close> and a threshold in \<open>[0, 1]\<close> hold
  at every invocation of the pipeline.
\<close>

theorem retrieval_configs_within_sliders:
  assumes run: "session_run w steps st = (st', ev)"
      and ev: "Queried p q \<in> set ev"
  shows "(\<exists>inp. Run inp \<in> set steps \<and>
            top_k (retrieval (qp_config p)) = slider 1 10 3 (top_k_slider inp) \<and>
            similarity_threshold (retrieval (qp_config p)) =
              slider 0 1 (32 / 100) (threshold_slider inp) \<and>
            (top_k_slider inp = None \<longrightarrow> top_k (retrieval (qp_config p)) = 3) \<and>
            (threshold_slider inp = None \<longrightarrow>
               similarity_threshold (retrieval (qp_config p)) = 32 / 100)) \<and>
         1 \<le> top_k (retrieval (qp_config p)) \<and> top_k (retrieval (qp_config p)) \<le> 10 \<and>
         0 \<le> similarity_threshold (retrieval (qp_config p)) \<and>
         similarity_threshold (retrieval (qp_config p)) \<le> 1"
proof -
  from session_run_inv [OF run] ev obtain inp where i: "Run inp \<in> set steps"
    and c: "retrieval (qp_config p) =
             \<lparr>top_k = slider 1 10 3 (top_k_slider inp),
              similarity_threshold = slider 0 1 (32 / 100) (threshold_slider inp)\<rparr>"
    unfolding session_inv_def by blast
  have k: "1 \<le> slider 1 10 3 (top_k_slider inp) \<and> slider 1 10 3 (top_k_slider inp) \<le> (10::int)"
    by (rule slider_within) simp_all
  have t: "0 \<le> slider 0 1 (32 / 100) (threshold_slider inp) \<and>
           slider 0 1 (32 / 100) (threshold_slider inp) \<le> (1::real)"
    by (rule slider_within) simp_all
  have d: "top_k_slider inp = None \<longrightarrow> slider 1 10 3 (top_k_slider inp) = (3::int)"
          "threshold_slider inp = None \<longrightarrow>
             slider 0 1 (32 / 100) (threshold_slider inp) = (32 / 100 :: real)"
    by (simp_all add: slider_def)
  from i c k t d show ?thesis by auto
qed

theorem retrieval_configs_within_sliders_witness:
  "session_run example_world [Run example_inputs, Run example_inputs] authenticated_state =
     (example_state\<lparr>chat_history := Some [\<lparr>user = ''hello'', bot = ''re: hello''\<rparr>,
                                             \<lparr>user = ''hello'', bot = ''re: hello''\<rparr>]\<rparr>,
      [Initialized example_services,
       Marked ''RAG Processing Query'' 2, Queried (example_processor 5 (32 / 100)) ''hello'',
       Marked ''RAG Processing Query'' 3, Appended \<lparr>user = ''hello'', bot = ''re: hello''\<rparr>,
       Marked ''RAG Processing Query'' 2, Queried (example_processor 5 (32 / 100)) ''hello'',
       Marked ''RAG Processing Query'' 3, Appended \<lparr>user = ''hello'', bot = ''re: hello''\<rparr>]) \<and>
   1 \<le> top_k (retrieval (qp_config (example_processor 5 (32 / 100)))) \<and>
   top_k (retrieval (qp_config (example_processor 5 (32 / 100)))) \<le> 10 \<and>
   0 \<le> similarity_threshold (retrieval (qp_config (example_processor 5 (32 / 100)))) \<and>
   similarity_threshold (retrieval (qp_config (example_processor 5 (32 / 100)))) \<le> 1"
proof -
  have ev: "Queried (example_processor 5 (32 / 100)) ''hello'' \<in> set
      [Initialized example_services,
       Marked ''RAG Processing Query'' 2, Queried (example_processor 5 (32 / 100)) ''hello'',
       Marked ''RAG Processing Query'' 3, Appended \<lparr>user = ''hello'', bot = ''re: hello''\<rparr>,
       Marked ''RAG Processing Query'' 2, Queried (example_processor 5 (32 / 100)) ''hello'',
       Marked ''RAG Processing Query'' 3, Appended \<lparr>user = ''hello'', bot = ''re: hello''\<rparr>]"
    by simp
  from retrieval_configs_within_sliders [OF example_session ev] example_session
  show ?thesis by blast
qed

end
